theory Spec2Isabelle
  imports Main
begin

section \<open>Data model of SocketService.ts and RedisService.ts\<close>

text \<open>
  The service keeps, per socket.io connection, a \<open>UserSocket\<close> object with two optional
  fields, and a \<open>Map\<close> from socket id to that object. Room membership lives in the
  socket.io adapter and cached records live in Redis; both are external libraries, so their
  documented behaviour is written out here as explicit state:
  \<^item> a new socket is put into the room named by its own id; \<open>socket.join(r)\<close> adds the
    socket to room \<open>r\<close>, whatever value \<open>r\<close> is; \<open>socket.to(r).emit\<close> reaches the members
    of \<open>r\<close> other than the sender; \<open>io.to(r).emit\<close> reaches all members of \<open>r\<close>;
    \<open>socket.emit\<close> reaches the socket itself; on transport close, whatever its cause, the
    library takes the socket out of every room and then fires \<open>disconnect\<close>, once per
    socket.
  \<^item> \<open>setEx(key, ttl, v)\<close> stores \<open>v\<close> with an expiry instant \<open>ttl\<close> seconds ahead,
    \<open>get\<close> reads a key as absent from that instant on, \<open>del\<close> removes the key.
  Every handler is run to completion before the next event (the \<open>await\<close> points are not
  interleaved). Clock readings (\<open>Date.now()\<close>, \<open>new Date()\<close>) are milliseconds as \<open>nat\<close>;
  the clock, the outcome of \<open>Math.random().toString(36).substr(2, 9)\<close> and whether the
  Redis call of the handler succeeds are inputs of each handler run.
\<close>

type_synonym socket_id = string
text \<open>A room is named by any value handed to \<open>join\<close>: a string, or \<open>undefined\<close>
  (\<open>None\<close>).\<close>

type_synonym room = "string option"
type_synonym millis = nat

record user_socket =
  userId :: "string option"
  projectId :: "string option"
  connected :: bool

text \<open>Payloads as the handlers declare them; \<open>None\<close> is a packet sent without a payload
  object, on which the first property access throws a \<open>TypeError\<close>. Nothing checks the
  fields of the \<open>authenticate\<close> payload at run time, so each of them may be missing
  (\<open>undefined\<close>, \<open>None\<close>).\<close>

datatype auth_data = AuthData (auth_userId: "string option") (auth_projectId: "string option")
datatype cursor_data = CursorData (cursor_line: int) (cursor_column: int)
datatype file_data = FileData (file_fileId: string) (file_content: string) (file_changes: string)
datatype chat_data = ChatData (message: string) (message_type: "string option")

datatype event =
    Connection
  | Authenticate "auth_data option"
  | CursorUpdate "cursor_data option"
  | FileChange "file_data option"
  | ChatMessage "chat_data option"
  | TypingStart
  | TypingStop
  | Disconnect

record env =
  now :: millis
  random36 :: string
  store_ok :: bool

datatype out_event =
    user_joined "string option" socket_id millis
  | cursor_update_out string cursor_data millis
  | file_change_out string string string string millis
  | chat_message_out string string string string string millis
  | typing_start_out string millis
  | typing_stop_out string millis
  | user_left string socket_id millis
  | auth_error string

text \<open>One \<open>emit\<close> call: the room it was addressed to (none for \<open>socket.emit\<close>), the
  connections it is delivered to, and the message.\<close>

record emission =
  addressed :: "room option"
  target :: "socket_id set"
  msg :: out_event

datatype cache_value =
    CursorPosition int int
  | CollaborationSession socket_id millis bool

datatype js_error = TypeError | StoreUnavailable

type_synonym redis_store = "string \<rightharpoonup> cache_value \<times> millis"

record server_state =
  sockets :: "socket_id \<rightharpoonup> user_socket"
  rooms :: "room \<Rightarrow> socket_id set"
  connectedUsers :: "socket_id list"
  redis :: redis_store

definition init :: server_state where
  "init = \<lparr>sockets = Map.empty, rooms = (\<lambda>_. {}), connectedUsers = [], redis = Map.empty\<rparr>"

section \<open>RedisService\<close>

definition setEx :: "redis_store \<Rightarrow> string \<Rightarrow> nat \<Rightarrow> cache_value \<Rightarrow> millis \<Rightarrow> redis_store" where
  "setEx r key ttl v t = r(key \<mapsto> (v, t + ttl * 1000))"

definition get_key :: "redis_store \<Rightarrow> string \<Rightarrow> millis \<Rightarrow> cache_value option" where
  "get_key r key t = (case r key of None \<Rightarrow> None | Some (v, expiry) \<Rightarrow> if t < expiry then Some v else None)"

definition del :: "redis_store \<Rightarrow> string \<Rightarrow> redis_store" where
  "del r key = r(key := None)"

definition setCache :: "env \<Rightarrow> string \<Rightarrow> cache_value \<Rightarrow> nat \<Rightarrow> redis_store \<Rightarrow> js_error + redis_store" where
  "setCache e key data ttl r =
     (if store_ok e then Inr (setEx r (''cache:'' @ key) ttl data (now e)) else Inl StoreUnavailable)"

definition getCache :: "env \<Rightarrow> string \<Rightarrow> redis_store \<Rightarrow> js_error + cache_value option" where
  "getCache e key r =
     (if store_ok e then Inr (get_key r (''cache:'' @ key) (now e)) else Inl StoreUnavailable)"

definition deleteCache :: "env \<Rightarrow> string \<Rightarrow> redis_store \<Rightarrow> js_error + redis_store" where
  "deleteCache e key r =
     (if store_ok e then Inr (del r (''cache:'' @ key)) else Inl StoreUnavailable)"

section \<open>socket.io primitives used by the service\<close>

definition join :: "room \<Rightarrow> socket_id \<Rightarrow> server_state \<Rightarrow> server_state" where
  "join r sid s = s\<lparr>rooms := (rooms s)(r := insert sid (rooms s r))\<rparr>"

definition leaveAll :: "socket_id \<Rightarrow> server_state \<Rightarrow> server_state" where
  "leaveAll sid s = s\<lparr>rooms := (\<lambda>r. rooms s r - {sid})\<rparr>"

definition socket_to :: "server_state \<Rightarrow> socket_id \<Rightarrow> room \<Rightarrow> out_event \<Rightarrow> emission" where
  "socket_to s sid r m = \<lparr>addressed = Some r, target = rooms s r - {sid}, msg = m\<rparr>"

definition io_to :: "server_state \<Rightarrow> room \<Rightarrow> out_event \<Rightarrow> emission" where
  "io_to s r m = \<lparr>addressed = Some r, target = rooms s r, msg = m\<rparr>"

definition socket_emit :: "socket_id \<Rightarrow> out_event \<Rightarrow> emission" where
  "socket_emit sid m = \<lparr>addressed = None, target = {sid}, msg = m\<rparr>"

text \<open>\<open>Map.prototype.set\<close> and \<open>delete\<close> on the keys of \<open>connectedUsers\<close>, in insertion
  order. The value stored under a socket id is the socket object itself, so it is read
  through \<open>sockets\<close> and shows the fields as they are now.\<close>

definition map_set :: "socket_id \<Rightarrow> socket_id list \<Rightarrow> socket_id list" where
  "map_set k ks = (if k \<in> set ks then ks else ks @ [k])"

definition map_delete :: "socket_id \<Rightarrow> socket_id list \<Rightarrow> socket_id list" where
  "map_delete k ks = removeAll k ks"

section \<open>SocketService\<close>

text \<open>The guard \<open>if (socket.userId && socket.projectId)\<close>: both fields set and non-empty.\<close>

definition authenticated :: "user_socket \<Rightarrow> (string \<times> string) option" where
  "authenticated sock =
     (case (userId sock, projectId sock) of
        (Some u, Some p) \<Rightarrow> if u \<noteq> [] \<and> p \<noteq> [] then Some (u, p) else None
      | _ \<Rightarrow> None)"

text \<open>A value inside a template string: \<open>undefined\<close> is rendered as the word.\<close>

definition template :: "string option \<Rightarrow> string" where
  "template x = (case x of None \<Rightarrow> ''undefined'' | Some v \<Rightarrow> v)"

definition updateCollaborationSession ::
    "env \<Rightarrow> string option \<Rightarrow> string option \<Rightarrow> socket_id \<Rightarrow> server_state \<Rightarrow> server_state" where
  "updateCollaborationSession e uid pid sid s =
     (case setCache e (''collaboration:'' @ template uid @ '':'' @ template pid)
             (CollaborationSession sid (now e) True) 3600 (redis s) of
        Inl _ \<Rightarrow> s
      | Inr r \<Rightarrow> s\<lparr>redis := r\<rparr>)"

definition removeCollaborationSession ::
    "env \<Rightarrow> string \<Rightarrow> string \<Rightarrow> server_state \<Rightarrow> server_state" where
  "removeCollaborationSession e uid pid s =
     (case deleteCache e (''collaboration:'' @ uid @ '':'' @ pid) (redis s) of
        Inl _ \<Rightarrow> s
      | Inr r \<Rightarrow> s\<lparr>redis := r\<rparr>)"

text \<open>The body of the \<open>try\<close> block of the \<open>authenticate\<close> handler. The only statement that
  throws is the first property access, before anything has been assigned.\<close>

definition authenticate_try ::
    "env \<Rightarrow> socket_id \<Rightarrow> user_socket \<Rightarrow> auth_data option \<Rightarrow> server_state
       \<Rightarrow> js_error + server_state \<times> emission list" where
  "authenticate_try e sid sock data s =
     (case data of
        None \<Rightarrow> Inl TypeError
      | Some d \<Rightarrow>
          (let s1 = s\<lparr>sockets := (sockets s)(sid \<mapsto>
                        sock\<lparr>userId := auth_userId d, projectId := auth_projectId d\<rparr>)\<rparr>;
               s2 = join (auth_projectId d) sid s1;
               s3 = s2\<lparr>connectedUsers := map_set sid (connectedUsers s2)\<rparr>;
               s4 = updateCollaborationSession e (auth_userId d) (auth_projectId d) sid s3
           in Inr (s4, [socket_to s4 sid (auth_projectId d)
                          (user_joined (auth_userId d) sid (now e))])))"

definition authenticate ::
    "env \<Rightarrow> socket_id \<Rightarrow> user_socket \<Rightarrow> auth_data option \<Rightarrow> server_state
       \<Rightarrow> server_state \<times> emission list" where
  "authenticate e sid sock data s =
     (case authenticate_try e sid sock data s of
        Inl _ \<Rightarrow> (s, [socket_emit sid (auth_error ''Authentication failed'')])
      | Inr r \<Rightarrow> r)"

definition cursor_update ::
    "env \<Rightarrow> socket_id \<Rightarrow> user_socket \<Rightarrow> cursor_data option \<Rightarrow> server_state
       \<Rightarrow> server_state \<times> emission list" where
  "cursor_update e sid sock data s =
     (case authenticated sock of
        None \<Rightarrow> (s, [])
      | Some (u, p) \<Rightarrow>
          (case data of
             None \<Rightarrow> (s, [])
           | Some d \<Rightarrow>
               (case setCache e (''cursor:'' @ u @ '':'' @ p)
                       (CursorPosition (cursor_line d) (cursor_column d)) 60 (redis s) of
                  Inl _ \<Rightarrow> (s, [])
                | Inr r \<Rightarrow>
                    (let s1 = s\<lparr>redis := r\<rparr>
                     in (s1, [socket_to s1 sid (Some p) (cursor_update_out u d (now e))])))))"

definition file_change ::
    "env \<Rightarrow> socket_id \<Rightarrow> user_socket \<Rightarrow> file_data option \<Rightarrow> server_state
       \<Rightarrow> server_state \<times> emission list" where
  "file_change e sid sock data s =
     (case authenticated sock of
        None \<Rightarrow> (s, [])
      | Some (u, p) \<Rightarrow>
          (case data of
             None \<Rightarrow> (s, [])
           | Some d \<Rightarrow>
               (s, [socket_to s sid (Some p)
                      (file_change_out (file_fileId d) (file_content d) (file_changes d) u (now e))])))"

text \<open>Decimal rendering of \<open>Date.now()\<close> inside the template string of the message id.\<close>

definition digit :: "nat \<Rightarrow> char" where
  "digit d = ''0123456789'' ! d"

fun dec :: "nat \<Rightarrow> string" where
  "dec n = (if n < 10 then [digit n] else dec (n div 10) @ [digit (n mod 10)])"

definition chat_id :: "millis \<Rightarrow> string \<Rightarrow> string" where
  "chat_id t r = ''msg_'' @ dec t @ ''_'' @ r"

text \<open>\<open>data.type || 'user'\<close>\<close>

definition type_or_user :: "string option \<Rightarrow> string" where
  "type_or_user t = (case t of None \<Rightarrow> ''user'' | Some v \<Rightarrow> if v = [] then ''user'' else v)"

definition chat_message ::
    "env \<Rightarrow> socket_id \<Rightarrow> user_socket \<Rightarrow> chat_data option \<Rightarrow> server_state
       \<Rightarrow> server_state \<times> emission list" where
  "chat_message e sid sock data s =
     (case authenticated sock of
        None \<Rightarrow> (s, [])
      | Some (u, p) \<Rightarrow>
          (case data of
             None \<Rightarrow> (s, [])
           | Some d \<Rightarrow>
               (s, [io_to s (Some p)
                      (chat_message_out (chat_id (now e) (random36 e)) u p (message d)
                         (type_or_user (message_type d)) (now e))])))"

definition typing_start ::
    "env \<Rightarrow> socket_id \<Rightarrow> user_socket \<Rightarrow> server_state \<Rightarrow> server_state \<times> emission list" where
  "typing_start e sid sock s =
     (case authenticated sock of
        None \<Rightarrow> (s, [])
      | Some (u, p) \<Rightarrow> (s, [socket_to s sid (Some p) (typing_start_out u (now e))]))"

definition typing_stop ::
    "env \<Rightarrow> socket_id \<Rightarrow> user_socket \<Rightarrow> server_state \<Rightarrow> server_state \<times> emission list" where
  "typing_stop e sid sock s =
     (case authenticated sock of
        None \<Rightarrow> (s, [])
      | Some (u, p) \<Rightarrow> (s, [socket_to s sid (Some p) (typing_stop_out u (now e))]))"

text \<open>The \<open>disconnect\<close> handler as written: it reads the two fields, never clears them and
  does not look at \<open>connectedUsers\<close> before notifying.\<close>

definition disconnect ::
    "env \<Rightarrow> socket_id \<Rightarrow> user_socket \<Rightarrow> server_state \<Rightarrow> server_state \<times> emission list" where
  "disconnect e sid sock s =
     (let (s1, out) =
            (case authenticated sock of
               None \<Rightarrow> (s, [])
             | Some (u, p) \<Rightarrow>
                 (let s0 = removeCollaborationSession e u p s
                  in (s0, [socket_to s0 sid (Some p) (user_left u sid (now e))])))
      in (s1\<lparr>connectedUsers := map_delete sid (connectedUsers s1)\<rparr>, out))"

text \<open>What socket.io does around the handlers: a new connection gets a fresh socket object
  with both fields unset and joins the room named by its own id; an event of a socket that
  is unknown or already closed is not delivered; on close the socket leaves every room
  before \<open>disconnect\<close> fires.\<close>

definition connection :: "socket_id \<Rightarrow> server_state \<Rightarrow> server_state" where
  "connection sid s =
     (case sockets s sid of
        Some _ \<Rightarrow> s
      | None \<Rightarrow>
          join (Some sid) sid
            (s\<lparr>sockets := (sockets s)(sid \<mapsto> \<lparr>userId = None, projectId = None, connected = True\<rparr>)\<rparr>))"

definition close_socket :: "socket_id \<Rightarrow> user_socket \<Rightarrow> server_state \<Rightarrow> server_state" where
  "close_socket sid sock s =
     leaveAll sid (s\<lparr>sockets := (sockets s)(sid \<mapsto> sock\<lparr>connected := False\<rparr>)\<rparr>)"

definition handle :: "env \<Rightarrow> socket_id \<Rightarrow> event \<Rightarrow> server_state \<Rightarrow> server_state \<times> emission list" where
  "handle e sid ev s =
     (case ev of
        Connection \<Rightarrow> (connection sid s, [])
      | _ \<Rightarrow>
        (case sockets s sid of
           None \<Rightarrow> (s, [])
         | Some sock \<Rightarrow>
             if \<not> connected sock then (s, [])
             else
               (case ev of
                  Connection \<Rightarrow> (s, [])
                | Authenticate d \<Rightarrow> authenticate e sid sock d s
                | CursorUpdate d \<Rightarrow> cursor_update e sid sock d s
                | FileChange d \<Rightarrow> file_change e sid sock d s
                | ChatMessage d \<Rightarrow> chat_message e sid sock d s
                | TypingStart \<Rightarrow> typing_start e sid sock s
                | TypingStop \<Rightarrow> typing_stop e sid sock s
                | Disconnect \<Rightarrow> disconnect e sid (sock\<lparr>connected := False\<rparr>) (close_socket sid sock s))))"

text \<open>A run of the server: the events in arrival order, each with its connection and the
  environment of its handler run; the result is the final state and everything emitted.\<close>

fun run :: "(env \<times> socket_id \<times> event) list \<Rightarrow> server_state \<Rightarrow> server_state \<times> emission list" where
  "run [] s = (s, [])"
| "run ((e, sid, ev) # rest) s =
     (let (s1, out1) = handle e sid ev s;
          (s2, out2) = run rest s1
      in (s2, out1 @ out2))"

text \<open>\<open>[...new Set(users)]\<close>: the first occurrence of every element, in order.\<close>

fun set_spread :: "'a list \<Rightarrow> 'a list \<Rightarrow> 'a list" where
  "set_spread seen [] = seen"
| "set_spread seen (x # xs) = set_spread (if x \<in> set seen then seen else seen @ [x]) xs"

fun forEach_push :: "(socket_id \<rightharpoonup> user_socket) \<Rightarrow> string \<Rightarrow> socket_id list \<Rightarrow> string list" where
  "forEach_push socks pid [] = []"
| "forEach_push socks pid (k # ks) =
     (case socks k of
        None \<Rightarrow> forEach_push socks pid ks
      | Some sock \<Rightarrow>
          (case userId sock of
             Some u \<Rightarrow>
               if projectId sock = Some pid \<and> u \<noteq> [] then u # forEach_push socks pid ks
               else forEach_push socks pid ks
           | None \<Rightarrow> forEach_push socks pid ks))"

definition getConnectedUsers :: "server_state \<Rightarrow> string \<Rightarrow> string list" where
  "getConnectedUsers s pid = set_spread [] (forEach_push (sockets s) pid (connectedUsers s))"

text \<open>A field that is \<open>undefined\<close> or the empty string fails the guard.\<close>

definition unset :: "string option \<Rightarrow> bool" where
  "unset x = (x = None \<or> x = Some [])"

definition sendToProject :: "server_state \<Rightarrow> string \<Rightarrow> out_event \<Rightarrow> emission" where
  "sendToProject s pid m = io_to s (Some pid) m"

section \<open>Predicates on states and runs\<close>

text \<open>A live connection with a project id is a member of that project's room.\<close>

definition joined_own_room :: "server_state \<Rightarrow> bool" where
  "joined_own_room s =
     (\<forall>sid sock p. sockets s sid = Some sock \<and> connected sock \<and> projectId sock = Some p
         \<longrightarrow> sid \<in> rooms s (Some p))"

text \<open>Connection \<open>c\<close> is a member of no room but its private room and, once it is
  registered in \<open>connectedUsers\<close>, the room named by its current project id.\<close>

definition only_own_room :: "socket_id \<Rightarrow> server_state \<Rightarrow> bool" where
  "only_own_room c s =
     (\<forall>r. c \<in> rooms s r \<longrightarrow>
        r = Some c \<or>
        (c \<in> set (connectedUsers s) \<and> (\<exists>sock. sockets s c = Some sock \<and> projectId sock = r)))"

text \<open>An \<open>authenticate\<close> event of a live connection that has authenticated before, with a
  project id other than the one the connection has; \<open>no_switch c\<close> says that connection
  \<open>c\<close> sends none in a run.\<close>

definition switches_project :: "server_state \<Rightarrow> socket_id \<Rightarrow> event \<Rightarrow> bool" where
  "switches_project s sid ev =
     (case ev of
        Authenticate (Some a) \<Rightarrow>
          (case sockets s sid of
             Some sock \<Rightarrow>
               connected sock \<and> sid \<in> set (connectedUsers s) \<and> projectId sock \<noteq> auth_projectId a
           | None \<Rightarrow> False)
      | _ \<Rightarrow> False)"

fun no_switch :: "socket_id \<Rightarrow> (env \<times> socket_id \<times> event) list \<Rightarrow> server_state \<Rightarrow> bool" where
  "no_switch c [] s = True"
| "no_switch c ((e, sid, ev) # rest) s =
     ((sid = c \<longrightarrow> \<not> switches_project s sid ev) \<and> no_switch c rest (fst (handle e sid ev s)))"

text \<open>The ids of the chat messages in a list of emissions, and the \<open>user_left\<close>
  notifications in it that name a given connection.\<close>

fun chat_ids :: "emission list \<Rightarrow> string list" where
  "chat_ids [] = []"
| "chat_ids (em # ems) =
     (case msg em of
        chat_message_out i _ _ _ _ _ \<Rightarrow> i # chat_ids ems
      | _ \<Rightarrow> chat_ids ems)"

definition names_left :: "socket_id \<Rightarrow> emission \<Rightarrow> bool" where
  "names_left c em = (case msg em of user_left _ sid _ \<Rightarrow> sid = c | _ \<Rightarrow> False)"

definition left_notices :: "socket_id \<Rightarrow> emission list \<Rightarrow> emission list" where
  "left_notices c out = filter (names_left c) out"

section \<open>Concrete runs\<close>

text \<open>Connections \<open>a\<close> and \<open>b\<close> join project \<open>p\<close> as users \<open>u1\<close> and \<open>u2\<close>.\<close>

definition env_at :: "millis \<Rightarrow> env" where
  "env_at t = \<lparr>now = t, random36 = ''k3j9x2m1q'', store_ok = True\<rparr>"

definition two_in_room :: "(env \<times> socket_id \<times> event) list" where
  "two_in_room =
     [(env_at 1000, ''a'', Connection),
      (env_at 2000, ''b'', Connection),
      (env_at 3000, ''a'', Authenticate (Some (AuthData (Some ''u1'') (Some ''p'')))),
      (env_at 4000, ''b'', Authenticate (Some (AuthData (Some ''u2'') (Some ''p''))))]"

text \<open>Both send a chat message at the same clock reading and draw the same suffix.\<close>

definition same_instant_chats :: "(env \<times> socket_id \<times> event) list" where
  "same_instant_chats =
     two_in_room @
     [(env_at 5000, ''a'', ChatMessage (Some (ChatData ''hi'' None))),
      (env_at 5000, ''b'', ChatMessage (Some (ChatData ''yo'' None)))]"

text \<open>Connection \<open>a\<close> authenticates for project \<open>p\<close> and then for project \<open>q\<close>.\<close>

definition rejoin_other_project :: "(env \<times> socket_id \<times> event) list" where
  "rejoin_other_project =
     [(env_at 1000, ''a'', Connection),
      (env_at 2000, ''a'', Authenticate (Some (AuthData (Some ''u1'') (Some ''p'')))),
      (env_at 3000, ''a'', Authenticate (Some (AuthData (Some ''u1'') (Some ''q''))))]"

text \<open>Connection \<open>x\<close> authenticates for \<open>A\<close> and then for \<open>B\<close>; connection \<open>y\<close> joins \<open>A\<close>.\<close>

definition stale_member :: "(env \<times> socket_id \<times> event) list" where
  "stale_member =
     [(env_at 1000, ''x'', Connection),
      (env_at 2000, ''y'', Connection),
      (env_at 3000, ''x'', Authenticate (Some (AuthData (Some ''u1'') (Some ''A'')))),
      (env_at 4000, ''x'', Authenticate (Some (AuthData (Some ''u1'') (Some ''B'')))),
      (env_at 5000, ''y'', Authenticate (Some (AuthData (Some ''u2'') (Some ''A''))))]"

text \<open>Connection \<open>b\<close> names the id of connection \<open>a\<close> as its project.\<close>

definition joins_private_room :: "(env \<times> socket_id \<times> event) list" where
  "joins_private_room =
     [(env_at 1000, ''a'', Connection),
      (env_at 2000, ''b'', Connection),
      (env_at 3000, ''a'', Authenticate (Some (AuthData (Some ''u1'') (Some ''p'')))),
      (env_at 4000, ''b'', Authenticate (Some (AuthData (Some ''u2'') (Some ''a''))))]"

text \<open>Connection \<open>a\<close> authenticates with a payload object that has no fields.\<close>

definition joins_undefined_room :: "(env \<times> socket_id \<times> event) list" where
  "joins_undefined_room =
     [(env_at 1000, ''a'', Connection),
      (env_at 2000, ''a'', Authenticate (Some (AuthData None None)))]"

section \<open>Basic facts about the handlers\<close>

lemmas handler_defs =
  cursor_update_def file_change_def chat_message_def typing_start_def typing_stop_def

lemma authenticated_None_iff:
  "authenticated sock = None \<longleftrightarrow> unset (userId sock) \<or> unset (projectId sock)"
  by (auto simp: authenticated_def unset_def split: option.splits)

lemma authenticated_Some_iff:
  "authenticated sock = Some (u, p) \<longleftrightarrow>
     userId sock = Some u \<and> projectId sock = Some p \<and> u \<noteq> [] \<and> p \<noteq> []"
  by (auto simp: authenticated_def split: option.splits)

lemma updateCollaborationSession_frame [simp]:
  "sockets (updateCollaborationSession e u p sid s) = sockets s"
  "rooms (updateCollaborationSession e u p sid s) = rooms s"
  "connectedUsers (updateCollaborationSession e u p sid s) = connectedUsers s"
  by (simp_all add: updateCollaborationSession_def split: sum.splits)

lemma removeCollaborationSession_frame [simp]:
  "sockets (removeCollaborationSession e u p s) = sockets s"
  "rooms (removeCollaborationSession e u p s) = rooms s"
  "connectedUsers (removeCollaborationSession e u p s) = connectedUsers s"
  by (simp_all add: removeCollaborationSession_def split: sum.splits)

text \<open>Only Connection, Authenticate and Disconnect touch sockets and rooms.\<close>

lemma guarded_handlers_frame:
  assumes "ev \<in> {CursorUpdate c, FileChange f, ChatMessage m, TypingStart, TypingStop}"
  shows "sockets (fst (handle e sid ev s)) = sockets s"
    and "rooms (fst (handle e sid ev s)) = rooms s"
    and "connectedUsers (fst (handle e sid ev s)) = connectedUsers s"
  using assms
  by (auto simp: handle_def handler_defs Let_def split: option.splits sum.splits)

lemma handle_Connection:
  "fst (handle e sid Connection s) = connection sid s"
  by (simp add: handle_def)

lemma connection_new:
  "sockets s sid = None \<Longrightarrow>
   sockets (connection sid s) = (sockets s)(sid \<mapsto> \<lparr>userId = None, projectId = None, connected = True\<rparr>)
   \<and> rooms (connection sid s) = (rooms s)(Some sid := insert sid (rooms s (Some sid)))
   \<and> connectedUsers (connection sid s) = connectedUsers s"
  by (simp add: connection_def join_def)

lemma connection_known: "sockets s sid = Some sock \<Longrightarrow> connection sid s = s"
  by (simp add: connection_def)

lemma handle_Authenticate_None:
  "fst (handle e sid (Authenticate None) s) = s"
  by (simp add: handle_def authenticate_def authenticate_try_def split: option.splits)

lemma handle_Authenticate_Some:
  "sockets s sid = Some sock \<Longrightarrow> connected sock \<Longrightarrow>
   sockets (fst (handle e sid (Authenticate (Some a)) s))
     = (sockets s)(sid \<mapsto> sock\<lparr>userId := auth_userId a, projectId := auth_projectId a\<rparr>)
   \<and> rooms (fst (handle e sid (Authenticate (Some a)) s))
     = (rooms s)(auth_projectId a := insert sid (rooms s (auth_projectId a)))
   \<and> connectedUsers (fst (handle e sid (Authenticate (Some a)) s)) = map_set sid (connectedUsers s)"
  by (simp add: handle_def authenticate_def authenticate_try_def join_def Let_def)

lemma handle_Disconnect:
  "sockets s sid = Some sock \<Longrightarrow> connected sock \<Longrightarrow>
   sockets (fst (handle e sid Disconnect s)) = (sockets s)(sid \<mapsto> sock\<lparr>connected := False\<rparr>)
   \<and> rooms (fst (handle e sid Disconnect s)) = (\<lambda>r. rooms s r - {sid})
   \<and> connectedUsers (fst (handle e sid Disconnect s)) = map_delete sid (connectedUsers s)"
  by (simp add: handle_def disconnect_def close_socket_def leaveAll_def Let_def
        split: option.splits prod.splits)

lemma handle_not_delivered:
  "ev \<noteq> Connection \<Longrightarrow> sockets s sid = None \<or> (\<exists>sock. sockets s sid = Some sock \<and> \<not> connected sock) \<Longrightarrow>
   handle e sid ev s = (s, [])"
  by (cases ev) (auto simp: handle_def)

lemma joined_own_room_handle:
  assumes "joined_own_room s"
  shows "joined_own_room (fst (handle e sid ev s))"
proof (cases "ev = Connection")
  case True
  show ?thesis
  proof (cases "sockets s sid")
    case None
    with assms True connection_new [OF None] show ?thesis
      by (auto simp: handle_Connection joined_own_room_def)
  next
    case (Some sock)
    with assms True show ?thesis
      by (simp add: handle_Connection connection_known)
  qed
next
  case notconn: False
  show ?thesis
  proof (cases "\<exists>sock. sockets s sid = Some sock \<and> connected sock")
    case False
    then have "handle e sid ev s = (s, [])"
      using notconn handle_not_delivered [of ev s sid e] by (cases "sockets s sid") auto
    with assms show ?thesis by simp
  next
    case True
    then obtain sock where live: "sockets s sid = Some sock" "connected sock" by blast
    show ?thesis
    proof (cases ev)
      case Connection
      with notconn show ?thesis by simp
    next
      case (Authenticate d)
      show ?thesis
      proof (cases d)
        case None
        with Authenticate assms show ?thesis by (simp add: handle_Authenticate_None)
      next
        case (Some a)
        let ?s' = "fst (handle e sid (Authenticate (Some a)) s)"
        note upd = handle_Authenticate_Some [OF live, of e a]
        have "c \<in> rooms ?s' (Some q)"
          if "sockets ?s' c = Some sk" "connected sk" "projectId sk = Some q" for c sk q
        proof (cases "c = sid")
          case True
          with that upd show ?thesis by auto
        next
          case False
          with that upd have "sockets s c = Some sk" by simp
          with that assms have "c \<in> rooms s (Some q)"
            unfolding joined_own_room_def by blast
          with upd show ?thesis by auto
        qed
        with Authenticate Some show ?thesis
          unfolding joined_own_room_def by blast
      qed
    next
      case Disconnect
      with assms handle_Disconnect [OF live, of e] show ?thesis
        by (auto simp: joined_own_room_def)
    qed (use assms guarded_handlers_frame [of ev _ _ _ e sid s] in \<open>auto simp: joined_own_room_def\<close>)
  qed
qed

lemma run_fst_Cons:
  "fst (run ((e, sid, ev) # rest) s) = fst (run rest (fst (handle e sid ev s)))"
  by (simp add: Let_def split: prod.splits)

lemma joined_own_room_run:
  "joined_own_room s \<Longrightarrow> joined_own_room (fst (run tr s))"
proof (induction tr arbitrary: s)
  case Nil
  then show ?case by simp
next
  case (Cons x tr)
  obtain e sid ev where x: "x = (e, sid, ev)" by (cases x) auto
  from Cons show ?case
    unfolding x run_fst_Cons by (blast intro: joined_own_room_handle)
qed

lemma joined_own_room_init: "joined_own_room init"
  by (simp add: joined_own_room_def init_def)

section \<open>Events before authentication\<close>

text \<open>
  Claim C2. A cursor update, file change, chat message, typing start or typing stop that
  arrives on a connection whose \<open>userId\<close> or \<open>projectId\<close> is unset is dropped: the handler
  emits nothing (no broadcast and no reply to the sender) and returns the state as it was
  (so nothing is written to the store).
\<close>

theorem unauthenticated_event_discarded:
  assumes "sockets s sid = Some sock"
      and "unset (userId sock) \<or> unset (projectId sock)"
      and "ev \<in> {CursorUpdate c, FileChange f, ChatMessage m, TypingStart, TypingStop}"
  shows "handle e sid ev s = (s, [])"
proof -
  have "authenticated sock = None"
    using assms(2) by (simp add: authenticated_None_iff)
  with assms(1,3) show ?thesis
    by (auto simp: handle_def handler_defs)
qed

theorem unauthenticated_event_discarded_witness:
  "handle \<lparr>now = 5, random36 = ''abc'', store_ok = True\<rparr> ''a''
      (ChatMessage (Some (ChatData ''hi'' None))) (connection ''a'' init)
     = (connection ''a'' init, [])"
  using unauthenticated_event_discarded [of "connection ''a'' init" "''a''"
      "\<lparr>userId = None, projectId = None, connected = True\<rparr>"
      "ChatMessage (Some (ChatData ''hi'' None))" None None "Some (ChatData ''hi'' None)"]
  by (simp add: connection_def join_def init_def unset_def)

lemmas run_defs =
  init_def handle_def connection_def authenticate_def authenticate_try_def join_def map_set_def
  updateCollaborationSession_def template_def setCache_def setEx_def socket_to_def env_at_def

lemma two_in_room_sockets:
  "sockets (fst (run two_in_room init)) =
     [''a'' \<mapsto> \<lparr>userId = Some ''u1'', projectId = Some ''p'', connected = True\<rparr>,
      ''b'' \<mapsto> \<lparr>userId = Some ''u2'', projectId = Some ''p'', connected = True\<rparr>]"
  by (simp add: two_in_room_def run_defs fun_upd_twist)

lemma two_in_room_rooms:
  "rooms (fst (run two_in_room init)) =
     (\<lambda>_. {})(Some ''a'' := {''a''}, Some ''b'' := {''b''}, Some ''p'' := {''a'', ''b''})"
  by (simp add: two_in_room_def run_defs insert_commute)

lemma two_in_room_connectedUsers:
  "connectedUsers (fst (run two_in_room init)) = [''a'', ''b'']"
  by (simp add: two_in_room_def run_defs)

section \<open>Broadcast targets\<close>

text \<open>
  Claim C1. In every state reached by a run, a chat message of an authenticated connection
  is emitted to the whole membership set of the sender's room, and the sender is in that
  set; the notification of a join, a cursor update, a file change, a typing start or stop
  and the notification of a disconnect are emitted to the members of the room other than
  the sender.
\<close>

theorem chat_to_room_with_sender_others_without:
  assumes "s = fst (run tr init)" and "sockets s sid = Some sock" and "connected sock"
  shows "snd (handle e sid (Authenticate (Some a)) s) =
           [\<lparr>addressed = Some (auth_projectId a), target = rooms s (auth_projectId a) - {sid},
             msg = user_joined (auth_userId a) sid (now e)\<rparr>]
       \<and> (authenticated sock = Some (u, p) \<longrightarrow>
            snd (handle e sid (ChatMessage (Some m)) s) =
              [\<lparr>addressed = Some (Some p), target = rooms s (Some p),
                msg = chat_message_out (chat_id (now e) (random36 e)) u p (message m)
                        (type_or_user (message_type m)) (now e)\<rparr>]
          \<and> sid \<in> rooms s (Some p)
          \<and> (store_ok e \<longrightarrow>
               snd (handle e sid (CursorUpdate (Some c)) s) =
                 [\<lparr>addressed = Some (Some p), target = rooms s (Some p) - {sid},
                   msg = cursor_update_out u c (now e)\<rparr>])
          \<and> snd (handle e sid (FileChange (Some f)) s) =
              [\<lparr>addressed = Some (Some p), target = rooms s (Some p) - {sid},
                msg = file_change_out (file_fileId f) (file_content f) (file_changes f) u (now e)\<rparr>]
          \<and> snd (handle e sid TypingStart s) =
              [\<lparr>addressed = Some (Some p), target = rooms s (Some p) - {sid}, msg = typing_start_out u (now e)\<rparr>]
          \<and> snd (handle e sid TypingStop s) =
              [\<lparr>addressed = Some (Some p), target = rooms s (Some p) - {sid}, msg = typing_stop_out u (now e)\<rparr>]
          \<and> snd (handle e sid Disconnect s) =
              [\<lparr>addressed = Some (Some p), target = rooms s (Some p) - {sid}, msg = user_left u sid (now e)\<rparr>])"
proof -
  have member: "sid \<in> rooms s (Some p)" if "authenticated sock = Some (u, p)"
  proof -
    have "joined_own_room s"
      using assms(1) joined_own_room_run [OF joined_own_room_init] by simp
    moreover have "projectId sock = Some p"
      using that by (simp add: authenticated_Some_iff)
    ultimately show ?thesis
      using assms(2,3) unfolding joined_own_room_def by blast
  qed
  have auth: "snd (handle e sid (Authenticate (Some a)) s) =
           [\<lparr>addressed = Some (auth_projectId a), target = rooms s (auth_projectId a) - {sid},
             msg = user_joined (auth_userId a) sid (now e)\<rparr>]"
    using assms(2,3)
    by (simp add: handle_def authenticate_def authenticate_try_def join_def socket_to_def Let_def)
  have closed: "authenticated (sock\<lparr>connected := False\<rparr>) = authenticated sock"
    by (simp add: authenticated_def)
  have rest: "snd (handle e sid (ChatMessage (Some m)) s) =
              [\<lparr>addressed = Some (Some p), target = rooms s (Some p),
                msg = chat_message_out (chat_id (now e) (random36 e)) u p (message m)
                        (type_or_user (message_type m)) (now e)\<rparr>]
          \<and> (store_ok e \<longrightarrow>
               snd (handle e sid (CursorUpdate (Some c)) s) =
                 [\<lparr>addressed = Some (Some p), target = rooms s (Some p) - {sid},
                   msg = cursor_update_out u c (now e)\<rparr>])
          \<and> snd (handle e sid (FileChange (Some f)) s) =
              [\<lparr>addressed = Some (Some p), target = rooms s (Some p) - {sid},
                msg = file_change_out (file_fileId f) (file_content f) (file_changes f) u (now e)\<rparr>]
          \<and> snd (handle e sid TypingStart s) =
              [\<lparr>addressed = Some (Some p), target = rooms s (Some p) - {sid}, msg = typing_start_out u (now e)\<rparr>]
          \<and> snd (handle e sid TypingStop s) =
              [\<lparr>addressed = Some (Some p), target = rooms s (Some p) - {sid}, msg = typing_stop_out u (now e)\<rparr>]
          \<and> snd (handle e sid Disconnect s) =
              [\<lparr>addressed = Some (Some p), target = rooms s (Some p) - {sid}, msg = user_left u sid (now e)\<rparr>]"
    if "authenticated sock = Some (u, p)"
    using assms(2,3) that closed
    by (simp add: handle_def handler_defs disconnect_def close_socket_def leaveAll_def
          socket_to_def io_to_def setCache_def Let_def)
  from member auth rest show ?thesis by blast
qed

theorem chat_to_room_with_sender_others_without_witness:
  "snd (handle (env_at 5000) ''a'' (ChatMessage (Some (ChatData ''hi'' None))) (fst (run two_in_room init))) =
     [\<lparr>addressed = Some (Some ''p''), target = {''a'', ''b''},
       msg = chat_message_out (chat_id 5000 ''k3j9x2m1q'') ''u1'' ''p'' ''hi'' ''user'' 5000\<rparr>]
   \<and> snd (handle (env_at 5000) ''a'' (CursorUpdate (Some (CursorData 4 10))) (fst (run two_in_room init))) =
     [\<lparr>addressed = Some (Some ''p''), target = {''b''},
       msg = cursor_update_out ''u1'' (CursorData 4 10) 5000\<rparr>]"
  using chat_to_room_with_sender_others_without [of "fst (run two_in_room init)" two_in_room "''a''"
      "\<lparr>userId = Some ''u1'', projectId = Some ''p'', connected = True\<rparr>" "env_at 5000"
      "AuthData (Some ''u1'') (Some ''p'')" "''u1''" "''p''" "ChatData ''hi'' None" "CursorData 4 10"
      "FileData ''f1'' ''x'' ''y''"]
  by (simp add: two_in_room_sockets two_in_room_rooms authenticated_def env_at_def type_or_user_def
        insert_Diff_if)

section \<open>Failed authentication\<close>

lemma authenticate_try_Inl:
  "authenticate_try e sid sock d s = Inl err \<longleftrightarrow> d = None \<and> err = TypeError"
  by (auto simp: authenticate_try_def Let_def split: option.splits)



section \<open>Time to live of the cached records\<close>

text \<open>
  Claim C6. With the store reachable, a cursor update of an authenticated connection writes
  the cursor record with an expiry 60 seconds after the clock reading of the handler, and
  an authenticate event writes the session record with an expiry 3600 seconds after it.
  A read of the record as written finds it before that instant and finds nothing from
  that instant on, so a record that has not been rewritten for more than 60 (or 3600)
  seconds reads as absent.
\<close>

theorem presence_ttls:
  assumes "sockets s sid = Some sock" and "connected sock" and "store_ok e"
  shows "(authenticated sock = Some (u, p) \<longrightarrow>
            redis (fst (handle e sid (CursorUpdate (Some d)) s)) (''cache:cursor:'' @ u @ '':'' @ p)
              = Some (CursorPosition (cursor_line d) (cursor_column d), now e + 60 * 1000)
          \<and> (\<forall>e'. store_ok e' \<longrightarrow>
                getCache e' (''cursor:'' @ u @ '':'' @ p)
                    (redis (fst (handle e sid (CursorUpdate (Some d)) s)))
                  = Inr (if now e' < now e + 60 * 1000
                         then Some (CursorPosition (cursor_line d) (cursor_column d)) else None)))
       \<and> redis (fst (handle e sid (Authenticate (Some a)) s))
              (''cache:collaboration:'' @ template (auth_userId a) @ '':'' @ template (auth_projectId a))
           = Some (CollaborationSession sid (now e) True, now e + 3600 * 1000)
       \<and> (\<forall>e'. store_ok e' \<longrightarrow>
             getCache e' (''collaboration:'' @ template (auth_userId a) @ '':'' @ template (auth_projectId a))
                 (redis (fst (handle e sid (Authenticate (Some a)) s)))
               = Inr (if now e' < now e + 3600 * 1000
                      then Some (CollaborationSession sid (now e) True) else None))"
  using assms
  by (simp add: handle_def cursor_update_def authenticate_def authenticate_try_def
       updateCollaborationSession_def setCache_def getCache_def setEx_def get_key_def join_def Let_def)

theorem presence_ttls_witness:
  "getCache (env_at 64999) ''cursor:u1:p''
      (redis (fst (handle (env_at 5000) ''a'' (CursorUpdate (Some (CursorData 4 10)))
                     (fst (run two_in_room init)))))
     = Inr (Some (CursorPosition 4 10))
   \<and> getCache (env_at 65001) ''cursor:u1:p''
      (redis (fst (handle (env_at 5000) ''a'' (CursorUpdate (Some (CursorData 4 10)))
                     (fst (run two_in_room init)))))
     = Inr None
   \<and> getCache (env_at 3605001) ''collaboration:u3:q''
      (redis (fst (handle (env_at 5000) ''a'' (Authenticate (Some (AuthData (Some ''u3'') (Some ''q''))))
                     (fst (run two_in_room init)))))
     = Inr None"
proof -
  have live: "sockets (fst (run two_in_room init)) ''a'' =
                Some \<lparr>userId = Some ''u1'', projectId = Some ''p'', connected = True\<rparr>"
    by (simp add: two_in_room_sockets)
  have auth: "authenticated \<lparr>userId = Some ''u1'', projectId = Some ''p'', connected = True\<rparr>
                = Some (''u1'', ''p'')"
    by (simp add: authenticated_def)
  have ok: "store_ok (env_at t)" and t: "now (env_at t) = t" for t
    by (simp_all add: env_at_def)
  have conn: "connected \<lparr>userId = Some ''u1'', projectId = Some ''p'', connected = True\<rparr>"
    by simp
  note ttl = presence_ttls [where e = "env_at 5000" and u = "''u1''" and p = "''p''"
      and d = "CursorData 4 10" and a = "AuthData (Some ''u3'') (Some ''q'')", OF live conn ok,
      simplified auth t template_def, simplified]
  from ttl have c: "getCache e' ''cursor:u1:p''
      (redis (fst (handle (env_at 5000) ''a'' (CursorUpdate (Some (CursorData 4 10)))
                     (fst (run two_in_room init)))))
      = Inr (if now e' < 65000 then Some (CursorPosition 4 10) else None)"
    if "store_ok e'" for e'
    using that by simp
  from ttl have a: "getCache e' ''collaboration:u3:q''
      (redis (fst (handle (env_at 5000) ''a'' (Authenticate (Some (AuthData (Some ''u3'') (Some ''q''))))
                     (fst (run two_in_room init)))))
      = Inr (if now e' < 3605000 then Some (CollaborationSession ''a'' 5000 True) else None)"
    if "store_ok e'" for e'
    using that by simp
  show ?thesis
    using c [OF ok, of 64999] c [OF ok, of 65001] a [OF ok, of 3605001] by (simp add: t)
qed

section \<open>Users connected to a project\<close>

lemma set_set_spread: "set (set_spread seen xs) = set seen \<union> set xs"
  by (induction xs arbitrary: seen) auto

lemma distinct_set_spread: "distinct seen \<Longrightarrow> distinct (set_spread seen xs)"
  by (induction xs arbitrary: seen) auto

lemma set_forEach_push:
  "u \<in> set (forEach_push socks pid ks) \<longleftrightarrow>
     (\<exists>k \<in> set ks. \<exists>sock. socks k = Some sock \<and> projectId sock = Some pid
         \<and> userId sock = Some u \<and> u \<noteq> [])"
  by (induction ks) (auto split: option.splits)

text \<open>
  Claim C10. For every project id, \<open>getConnectedUsers\<close> returns a list without
  duplicates, and a user id is in it exactly when some connection registered in
  \<open>connectedUsers\<close> carries that (non-empty) user id and has that project id as its current
  \<open>projectId\<close>. Connections without a user id and connections of other projects
  contribute nothing.
\<close>

theorem getConnectedUsers_distinct_and_exact:
  "distinct (getConnectedUsers s pid) \<and>
   (u \<in> set (getConnectedUsers s pid) \<longleftrightarrow>
      (\<exists>sid \<in> set (connectedUsers s). \<exists>sock.
          sockets s sid = Some sock \<and> projectId sock = Some pid
          \<and> userId sock = Some u \<and> u \<noteq> []))"
  by (simp add: getConnectedUsers_def distinct_set_spread set_set_spread set_forEach_push)

theorem getConnectedUsers_distinct_and_exact_witness:
  "distinct (getConnectedUsers (fst (run two_in_room init)) ''p'')
   \<and> ''u1'' \<in> set (getConnectedUsers (fst (run two_in_room init)) ''p'')
   \<and> ''u1'' \<notin> set (getConnectedUsers (fst (run two_in_room init)) ''q'')"
  using getConnectedUsers_distinct_and_exact [of "fst (run two_in_room init)" "''p''" "''u1''"]
    getConnectedUsers_distinct_and_exact [of "fst (run two_in_room init)" "''q''" "''u1''"]
  by (simp add: two_in_room_sockets two_in_room_connectedUsers)

section \<open>Chat message ids\<close>

declare dec.simps [simp del]

lemma digit_inj: "a < 10 \<Longrightarrow> b < 10 \<Longrightarrow> digit a = digit b \<Longrightarrow> a = b"
proof -
  assume a: "a < 10" and b: "b < 10" and eq: "digit a = digit b"
  from a have "a \<in> {0, 1, 2, 3, 4, 5, 6, 7, 8, 9}" by auto
  moreover from b have "b \<in> {0, 1, 2, 3, 4, 5, 6, 7, 8, 9}" by auto
  ultimately show ?thesis using eq by (auto simp: digit_def)
qed

lemma digit_not_sep: "d < 10 \<Longrightarrow> digit d \<noteq> CHR ''_''"
proof -
  assume "d < 10"
  then have "d \<in> {0, 1, 2, 3, 4, 5, 6, 7, 8, 9}" by auto
  then show ?thesis by (auto simp: digit_def)
qed

lemma dec_nonempty: "dec n \<noteq> []"
  by (subst dec.simps) simp

lemma sep_notin_dec: "CHR ''_'' \<notin> set (dec n)"
proof (induction n rule: dec.induct)
  case (1 n)
  show ?case
  proof (cases "n < 10")
    case True
    then show ?thesis by (subst dec.simps) (simp add: digit_not_sep [THEN not_sym])
  next
    case False
    with 1 show ?thesis by (subst dec.simps) (simp add: digit_not_sep [THEN not_sym])
  qed
qed

lemma dec_inj: "dec n = dec m \<Longrightarrow> n = m"
proof (induction n arbitrary: m rule: dec.induct)
  case (1 n)
  show ?case
  proof (cases "n < 10")
    case n: True
    show ?thesis
    proof (cases "m < 10")
      case True
      with n 1(2) show ?thesis by (simp add: dec.simps [of n] dec.simps [of m] digit_inj)
    next
      case False
      with n 1(2) show ?thesis
        by (simp add: dec.simps [of n] dec.simps [of m] dec_nonempty [THEN not_sym])
    qed
  next
    case n: False
    show ?thesis
    proof (cases "m < 10")
      case True
      with n 1(2) show ?thesis
        by (simp add: dec.simps [of n] dec.simps [of m] dec_nonempty)
    next
      case False
      with n 1(2) have "dec (n div 10) = dec (m div 10)" "digit (n mod 10) = digit (m mod 10)"
        by (simp_all add: dec.simps [of n] dec.simps [of m])
      with 1(1) [OF n] have "n div 10 = m div 10" "n mod 10 = m mod 10"
        by (simp_all add: digit_inj)
      then show ?thesis by (metis div_mult_mod_eq)
    qed
  qed
qed

lemma split_at_sep:
  "c \<notin> set xs \<Longrightarrow> c \<notin> set xs' \<Longrightarrow> xs @ c # ys = xs' @ c # ys' \<Longrightarrow> xs = xs' \<and> ys = ys'"
proof (induction xs arbitrary: xs')
  case Nil
  then show ?case by (cases xs') auto
next
  case (Cons x xs)
  then show ?case by (cases xs') auto
qed

lemma chat_id_inj: "chat_id t r = chat_id t' r' \<longleftrightarrow> t = t' \<and> r = r'"
proof
  assume "chat_id t r = chat_id t' r'"
  then have "dec t @ CHR ''_'' # r = dec t' @ CHR ''_'' # r'"
    by (simp add: chat_id_def)
  from split_at_sep [OF sep_notin_dec sep_notin_dec this] show "t = t' \<and> r = r'"
    by (auto dest: dec_inj)
qed simp

lemma run_append:
  "run (tr @ tr') s = (fst (run tr' (fst (run tr s))), snd (run tr s) @ snd (run tr' (fst (run tr s))))"
  by (induction tr arbitrary: s) (auto simp: Let_def split: prod.splits)

lemma run_single: "run [(e, sid, ev)] s = handle e sid ev s"
  by (simp add: Let_def split: prod.splits)

lemma chat_ids_append: "chat_ids (xs @ ys) = chat_ids xs @ chat_ids ys"
  by (induction xs) (auto split: out_event.splits)

lemma two_in_room_chat_ids: "chat_ids (snd (run two_in_room init)) = []"
  by (simp add: two_in_room_def run_defs)

text \<open>
  Claim C3 fails as stated. The id is built from the clock reading and a random suffix;
  the service keeps no counter, per room or otherwise. Two different chat messages sent in
  the same room at the same clock reading with the same suffix drawn carry the same id.
\<close>

theorem chat_id_not_unique_counterexample:
  "chat_ids (snd (run same_instant_chats init)) = [''msg_5000_k3j9x2m1q'', ''msg_5000_k3j9x2m1q'']"
  by (simp add: same_instant_chats_def run_append chat_ids_append two_in_room_chat_ids handle_def
        two_in_room_sockets chat_message_def authenticated_def io_to_def chat_id_def dec.simps
        digit_def env_at_def)

text \<open>
  Claim C3, amended. Every chat message broadcast for an authenticated connection carries
  the id \<open>msg_\<close>, the clock reading in decimal, \<open>_\<close>, the random suffix. The ids of two
  chat messages of the same room are equal exactly when both the clock reading and the
  suffix coincide; they differ whenever the clock reading or the suffix differs.
\<close>

theorem chat_id_collides_only_on_same_clock_and_suffix:
  assumes "sockets s1 sid1 = Some sock1" and "connected sock1" and "authenticated sock1 = Some (u1, p)"
      and "sockets s2 sid2 = Some sock2" and "connected sock2" and "authenticated sock2 = Some (u2, p)"
  shows "chat_ids (snd (handle e1 sid1 (ChatMessage (Some m1)) s1)) = [chat_id (now e1) (random36 e1)]
       \<and> chat_ids (snd (handle e2 sid2 (ChatMessage (Some m2)) s2)) = [chat_id (now e2) (random36 e2)]
       \<and> (chat_id (now e1) (random36 e1) = chat_id (now e2) (random36 e2)
            \<longleftrightarrow> now e1 = now e2 \<and> random36 e1 = random36 e2)"
  using assms by (simp add: handle_def chat_message_def io_to_def chat_id_inj)

theorem chat_id_collides_only_on_same_clock_and_suffix_witness:
  "chat_ids (snd (handle (env_at 5000) ''a'' (ChatMessage (Some (ChatData ''hi'' None)))
                    (fst (run two_in_room init)))) = [''msg_5000_k3j9x2m1q'']
   \<and> chat_ids (snd (handle (env_at 6000) ''b'' (ChatMessage (Some (ChatData ''yo'' None)))
                    (fst (run two_in_room init)))) = [''msg_6000_k3j9x2m1q'']
   \<and> chat_id 5000 ''k3j9x2m1q'' \<noteq> chat_id 6000 ''k3j9x2m1q''"
  using chat_id_collides_only_on_same_clock_and_suffix [of "fst (run two_in_room init)" "''a''"
      "\<lparr>userId = Some ''u1'', projectId = Some ''p'', connected = True\<rparr>" "''u1''" "''p''"
      "fst (run two_in_room init)" "''b''"
      "\<lparr>userId = Some ''u2'', projectId = Some ''p'', connected = True\<rparr>" "''u2''"
      "env_at 5000" "ChatData ''hi'' None" "env_at 6000" "ChatData ''yo'' None"]
  by (simp add: two_in_room_sockets authenticated_def env_at_def chat_id_def dec.simps digit_def)

section \<open>Room membership over runs\<close>

lemma set_map_set: "set (map_set k ks) = insert k (set ks)"
  by (auto simp: map_set_def)

lemma set_map_delete: "set (map_delete k ks) = set ks - {k}"
  by (auto simp: map_delete_def)

lemma only_own_room_handle:
  assumes "only_own_room c s" and "sid = c \<longrightarrow> \<not> switches_project s sid ev"
  shows "only_own_room c (fst (handle e sid ev s))"
proof (cases "ev = Connection")
  case True
  show ?thesis
  proof (cases "sockets s sid")
    case None
    note upd = connection_new [OF None]
    have "r = Some c \<or>
        (c \<in> set (connectedUsers (connection sid s)) \<and>
         (\<exists>sock. sockets (connection sid s) c = Some sock \<and> projectId sock = r))"
      if mem: "c \<in> rooms (connection sid s) r" for r
    proof (cases "c = sid")
      case True
      have "r = Some c"
      proof (rule ccontr)
        assume other: "r \<noteq> Some c"
        with mem upd True have "c \<in> rooms s r" by (auto split: if_splits)
        with assms(1) other have "\<exists>sock. sockets s c = Some sock"
          unfolding only_own_room_def by blast
        with None True show False by simp
      qed
      then show ?thesis ..
    next
      case False
      with mem upd have "c \<in> rooms s r" by (auto split: if_splits)
      with assms(1) have "r = Some c \<or>
          (c \<in> set (connectedUsers s) \<and> (\<exists>sock. sockets s c = Some sock \<and> projectId sock = r))"
        unfolding only_own_room_def by blast
      with False upd show ?thesis by auto
    qed
    with True show ?thesis
      unfolding only_own_room_def by (simp add: handle_Connection)
  next
    case (Some sock)
    with assms(1) True show ?thesis
      by (simp add: handle_Connection connection_known)
  qed
next
  case notconn: False
  show ?thesis
  proof (cases "\<exists>sock. sockets s sid = Some sock \<and> connected sock")
    case False
    then have "handle e sid ev s = (s, [])"
      using notconn handle_not_delivered [of ev s sid e] by (cases "sockets s sid") auto
    with assms show ?thesis by simp
  next
    case True
    then obtain sock where live: "sockets s sid = Some sock" "connected sock" by blast
    show ?thesis
    proof (cases ev)
      case Connection
      with notconn show ?thesis by simp
    next
      case (Authenticate d)
      show ?thesis
      proof (cases d)
        case None
        with Authenticate assms show ?thesis by (simp add: handle_Authenticate_None)
      next
        case (Some a)
        let ?s' = "fst (handle e sid (Authenticate (Some a)) s)"
        note upd = handle_Authenticate_Some [OF live, of e a]
        have "r = Some c \<or>
            (c \<in> set (connectedUsers ?s') \<and> (\<exists>sock. sockets ?s' c = Some sock \<and> projectId sock = r))"
          if mem: "c \<in> rooms ?s' r" for r
        proof (cases "c = sid")
          case same: True
          show ?thesis
          proof (cases "r = auth_projectId a")
            case True
            with same upd show ?thesis by (simp add: set_map_set)
          next
            case False
            with mem upd have "c \<in> rooms s r" by simp
            with assms(1) have "r = Some c \<or> (c \<in> set (connectedUsers s) \<and> projectId sock = r)"
              using live same unfolding only_own_room_def by fastforce
            moreover have "\<not> (c \<in> set (connectedUsers s) \<and> projectId sock = r)"
              using assms(2) same live Authenticate Some False
              by (auto simp: switches_project_def)
            ultimately show ?thesis by blast
          qed
        next
          case False
          with mem upd have "c \<in> rooms s r" by (auto split: if_splits)
          with assms(1) have "r = Some c \<or>
              (c \<in> set (connectedUsers s) \<and> (\<exists>sock. sockets s c = Some sock \<and> projectId sock = r))"
            unfolding only_own_room_def by blast
          with False upd show ?thesis by (auto simp: set_map_set)
        qed
        with Authenticate Some show ?thesis
          unfolding only_own_room_def by blast
      qed
    next
      case Disconnect
      let ?s' = "fst (handle e sid Disconnect s)"
      note upd = handle_Disconnect [OF live, of e]
      have "r = Some c \<or>
          (c \<in> set (connectedUsers ?s') \<and> (\<exists>sock. sockets ?s' c = Some sock \<and> projectId sock = r))"
        if mem: "c \<in> rooms ?s' r" for r
      proof -
        from mem upd have "c \<noteq> sid" "c \<in> rooms s r" by auto
        with assms(1) upd show ?thesis
          unfolding only_own_room_def by (auto simp: set_map_delete)
      qed
      with Disconnect show ?thesis
        unfolding only_own_room_def by blast
    qed (use assms guarded_handlers_frame [of ev _ _ _ e sid s] in \<open>auto simp: only_own_room_def\<close>)
  qed
qed

lemma only_own_room_run:
  "only_own_room c s \<Longrightarrow> no_switch c tr s \<Longrightarrow> only_own_room c (fst (run tr s))"
proof (induction tr arbitrary: s)
  case Nil
  then show ?case by simp
next
  case (Cons x tr)
  obtain e sid ev where x: "x = (e, sid, ev)" by (cases x) auto
  from Cons.prems have "only_own_room c (fst (handle e sid ev s))"
    "no_switch c tr (fst (handle e sid ev s))"
    unfolding x by (simp_all add: only_own_room_handle)
  then show ?case
    unfolding x run_fst_Cons by (rule Cons.IH)
qed

lemma only_own_room_init: "only_own_room c init"
  by (simp add: only_own_room_def init_def)

lemma no_switch_append:
  "no_switch c (tr @ tr') s \<longleftrightarrow> no_switch c tr s \<and> no_switch c tr' (fst (run tr s))"
  by (induction tr arbitrary: s) (auto simp: Let_def split: prod.splits)

lemma no_switch_two_in_room: "no_switch c two_in_room init"
  by (simp add: two_in_room_def switches_project_def run_defs)

lemma no_switch_joins_undefined_room: "no_switch c joins_undefined_room init"
  by (simp add: joins_undefined_room_def switches_project_def run_defs)

lemma joins_undefined_room_sockets:
  "sockets (fst (run joins_undefined_room init)) =
     [''a'' \<mapsto> \<lparr>userId = None, projectId = None, connected = True\<rparr>]"
  by (simp add: joins_undefined_room_def run_defs)

text \<open>
  Claim C5 fails as stated. The \<open>authenticate\<close> handler joins the new room and never leaves
  the old one: after a second event with another project id the connection, still
  connected and with the new project id, is a member of both project rooms (and of the
  private room under its own id).
\<close>

theorem member_of_two_rooms_counterexample:
  "map_option projectId (sockets (fst (run rejoin_other_project init)) ''a'') = Some (Some ''q'')
   \<and> map_option connected (sockets (fst (run rejoin_other_project init)) ''a'') = Some True
   \<and> ''a'' \<in> rooms (fst (run rejoin_other_project init)) (Some ''p'')
   \<and> ''a'' \<in> rooms (fst (run rejoin_other_project init)) (Some ''q'')
   \<and> ''a'' \<in> rooms (fst (run rejoin_other_project init)) (Some ''a'')"
  by (simp add: rejoin_other_project_def run_defs)

text \<open>
  Claim C5, amended. After every sequence of operations a live connection whose project id
  is set is a member of the room of that project id (it holds one project id at a time,
  the field being a single value). Besides that room and the private room under its own
  id it is a member of no room, provided the sequence holds no \<open>authenticate\<close> event by
  which this connection, having authenticated before, takes another project id. This
  covers payloads with missing fields, which join the room \<open>undefined\<close>.
\<close>

theorem member_of_own_room_and_of_no_other_without_switch:
  assumes "s = fst (run tr init)" and "sockets s sid = Some sock" and "connected sock"
  shows "(\<forall>p. projectId sock = Some p \<longrightarrow> sid \<in> rooms s (Some p))
       \<and> (no_switch sid tr init \<longrightarrow>
            (\<forall>r. sid \<in> rooms s r \<longrightarrow> r = projectId sock \<or> r = Some sid))"
proof -
  have "joined_own_room s"
    using assms(1) joined_own_room_run [OF joined_own_room_init] by simp
  then have "sid \<in> rooms s (Some p)" if "projectId sock = Some p" for p
    using assms(2,3) that unfolding joined_own_room_def by blast
  moreover have "r = projectId sock \<or> r = Some sid" if "no_switch sid tr init" "sid \<in> rooms s r" for r
  proof -
    have "only_own_room sid s"
      using assms(1) only_own_room_run [OF only_own_room_init that(1)] by simp
    with that(2) assms(2) show ?thesis
      unfolding only_own_room_def by fastforce
  qed
  ultimately show ?thesis by blast
qed

theorem member_of_own_room_and_of_no_other_without_switch_witness:
  "''a'' \<in> rooms (fst (run two_in_room init)) (Some ''p'')
   \<and> ''a'' \<notin> rooms (fst (run two_in_room init)) (Some ''q'')
   \<and> ''a'' \<notin> rooms (fst (run joins_undefined_room init)) (Some ''undefined'')"
  using member_of_own_room_and_of_no_other_without_switch [of "fst (run two_in_room init)"
      two_in_room "''a''" "\<lparr>userId = Some ''u1'', projectId = Some ''p'', connected = True\<rparr>"]
    member_of_own_room_and_of_no_other_without_switch [of "fst (run joins_undefined_room init)"
      joins_undefined_room "''a''" "\<lparr>userId = None, projectId = None, connected = True\<rparr>"]
  by (auto simp: two_in_room_sockets no_switch_two_in_room joins_undefined_room_sockets
        no_switch_joins_undefined_room)

section \<open>Room isolation\<close>

lemma emission_within_addressed_room:
  "em \<in> set (snd (handle e sid ev s)) \<Longrightarrow> addressed em = Some A \<Longrightarrow>
   target em \<subseteq> rooms (fst (handle e sid ev s)) A"
  by (cases ev)
    (auto simp: handle_def handler_defs authenticate_def authenticate_try_def disconnect_def
       socket_to_def io_to_def socket_emit_def Let_def
       split: option.splits sum.splits if_splits prod.splits)

lemma stale_member_sockets:
  "sockets (fst (run stale_member init)) =
     [''x'' \<mapsto> \<lparr>userId = Some ''u1'', projectId = Some ''B'', connected = True\<rparr>,
      ''y'' \<mapsto> \<lparr>userId = Some ''u2'', projectId = Some ''A'', connected = True\<rparr>]"
  by (simp add: stale_member_def run_defs fun_upd_twist)

lemma stale_member_room_A: "rooms (fst (run stale_member init)) (Some ''A'') = {''x'', ''y''}"
  by (simp add: stale_member_def run_defs insert_commute)

lemma joins_private_room_out:
  "snd (run joins_private_room init) =
     [\<lparr>addressed = Some (Some ''p''), target = {}, msg = user_joined (Some ''u1'') ''a'' 3000\<rparr>,
      \<lparr>addressed = Some (Some ''a''), target = {''a''}, msg = user_joined (Some ''u2'') ''b'' 4000\<rparr>]"
  by (simp add: joins_private_room_def run_defs insert_Diff_if)

lemma joins_private_room_sockets:
  "sockets (fst (run joins_private_room init)) =
     [''a'' \<mapsto> \<lparr>userId = Some ''u1'', projectId = Some ''p'', connected = True\<rparr>,
      ''b'' \<mapsto> \<lparr>userId = Some ''u2'', projectId = Some ''a'', connected = True\<rparr>]"
  by (simp add: joins_private_room_def run_defs fun_upd_twist)

text \<open>
  Claim C9 fails as stated, in two ways. Connection \<open>x\<close> joined room \<open>A\<close> and then
  authenticated for project \<open>B\<close>; its current room is \<open>B\<close>, yet it is still in the
  membership set of \<open>A\<close> and receives the chat message that \<open>y\<close> addresses to room \<open>A\<close>.
  And a project id is any string the client sends: when \<open>b\<close> names the connection id of
  \<open>a\<close> as its project, its join notification is addressed to the private room of \<open>a\<close> and
  delivered to \<open>a\<close>, whose current room is \<open>p\<close>.
\<close>

theorem broadcast_reaches_other_room_counterexample:
  "snd (handle (env_at 9000) ''y'' (ChatMessage (Some (ChatData ''hi'' None)))
          (fst (run stale_member init))) =
     [\<lparr>addressed = Some (Some ''A''), target = {''x'', ''y''},
       msg = chat_message_out ''msg_9000_k3j9x2m1q'' ''u2'' ''A'' ''hi'' ''user'' 9000\<rparr>]
   \<and> map_option projectId (sockets (fst (run stale_member init)) ''x'') = Some (Some ''B'')
   \<and> snd (run joins_private_room init) =
     [\<lparr>addressed = Some (Some ''p''), target = {}, msg = user_joined (Some ''u1'') ''a'' 3000\<rparr>,
      \<lparr>addressed = Some (Some ''a''), target = {''a''}, msg = user_joined (Some ''u2'') ''b'' 4000\<rparr>]
   \<and> map_option projectId (sockets (fst (run joins_private_room init)) ''a'') = Some (Some ''p'')"
  by (simp add: handle_def stale_member_sockets stale_member_room_A chat_message_def authenticated_def
        io_to_def chat_id_def dec.simps digit_def env_at_def type_or_user_def
        joins_private_room_out joins_private_room_sockets)

text \<open>
  Claim C9, amended. Every emission addressed to a room \<open>A\<close>, by any handler in any
  reachable state and by \<open>sendToProject\<close>, is delivered only to connections in the membership
  set of \<open>A\<close>. A recipient that never, having authenticated before, took another project
  id either has \<open>A\<close> as its current room or has \<open>A\<close> as its own connection id (the
  broadcast was addressed to its private room).
\<close>

theorem broadcast_stays_in_room_without_switch:
  assumes "s = fst (run tr init)" and "em \<in> set (snd (handle e sid ev s))" and "addressed em = Some A"
  shows "target em \<subseteq> rooms (fst (handle e sid ev s)) A
       \<and> target (sendToProject s pid m) = rooms s (Some pid)
       \<and> (\<forall>c \<in> target em. no_switch c (tr @ [(e, sid, ev)]) init \<longrightarrow>
            A = Some c \<or>
            (\<exists>sock. sockets (fst (handle e sid ev s)) c = Some sock \<and> projectId sock = A))"
proof -
  have sub: "target em \<subseteq> rooms (fst (handle e sid ev s)) A"
    using assms(2,3) by (rule emission_within_addressed_room)
  have "A = Some c \<or> (\<exists>sock. sockets (fst (handle e sid ev s)) c = Some sock \<and> projectId sock = A)"
    if c: "c \<in> target em" and ns: "no_switch c (tr @ [(e, sid, ev)]) init" for c
  proof -
    have "only_own_room c (fst (run (tr @ [(e, sid, ev)]) init))"
      using only_own_room_run [OF only_own_room_init ns] .
    then have "only_own_room c (fst (handle e sid ev s))"
      using assms(1) by (simp add: run_append run_single)
    with sub c show ?thesis
      unfolding only_own_room_def by blast
  qed
  with sub show ?thesis
    by (simp add: sendToProject_def io_to_def)
qed

theorem broadcast_stays_in_room_without_switch_witness:
  "map_option projectId
      (sockets (fst (handle (env_at 5000) ''a'' (ChatMessage (Some (ChatData ''hi'' None)))
                      (fst (run two_in_room init)))) ''a'') = Some (Some ''p'')
   \<and> map_option projectId
      (sockets (fst (handle (env_at 5000) ''a'' (ChatMessage (Some (ChatData ''hi'' None)))
                      (fst (run two_in_room init)))) ''b'') = Some (Some ''p'')"
proof -
  let ?em = "\<lparr>addressed = Some (Some ''p''), target = {''a'', ''b''},
       msg = chat_message_out (chat_id 5000 ''k3j9x2m1q'') ''u1'' ''p'' ''hi'' ''user'' 5000\<rparr>"
  let ?ev = "ChatMessage (Some (ChatData ''hi'' None))"
  have out: "snd (handle (env_at 5000) ''a'' ?ev (fst (run two_in_room init))) = [?em]"
    by (simp add: handle_def two_in_room_sockets two_in_room_rooms chat_message_def authenticated_def
          io_to_def env_at_def type_or_user_def)
  have ns: "no_switch c (two_in_room @ [(env_at 5000, ''a'', ?ev)]) init" for c
    by (simp add: no_switch_append no_switch_two_in_room switches_project_def)
  from broadcast_stays_in_room_without_switch [of "fst (run two_in_room init)" two_in_room ?em
      "env_at 5000" "''a''" ?ev "Some ''p''"] out ns
  show ?thesis by auto
qed

section \<open>Disconnect\<close>

lemma left_notice_only_from_disconnect:
  "em \<in> set (snd (handle e sid ev s)) \<Longrightarrow> names_left c em \<Longrightarrow> sid = c \<and> ev = Disconnect"
  by (cases ev)
    (auto simp: handle_def handler_defs authenticate_def authenticate_try_def disconnect_def
       socket_to_def io_to_def socket_emit_def names_left_def Let_def
       split: option.splits sum.splits if_splits prod.splits)

lemma left_notices_append: "left_notices c (xs @ ys) = left_notices c xs @ left_notices c ys"
  by (simp add: left_notices_def)

lemma left_notices_handle:
  "\<not> (sid = c \<and> ev = Disconnect) \<Longrightarrow> left_notices c (snd (handle e sid ev s)) = []"
  unfolding left_notices_def filter_empty_conv
  using left_notice_only_from_disconnect by blast

lemma run_snd_Cons:
  "snd (run ((e, sid, ev) # rest) s) = snd (handle e sid ev s) @ snd (run rest (fst (handle e sid ev s)))"
  by (simp add: Let_def split: prod.splits)

lemma handle_emits_at_most_one: "length (snd (handle e sid ev s)) \<le> 1"
  by (cases ev)
    (auto simp: handle_def handler_defs authenticate_def authenticate_try_def disconnect_def Let_def
       split: option.splits sum.splits if_splits prod.splits)

lemma left_notices_handle_le: "length (left_notices c (snd (handle e sid ev s))) \<le> 1"
  unfolding left_notices_def
  using handle_emits_at_most_one [of e sid ev s] length_filter_le [of "names_left c" "snd (handle e sid ev s)"]
  by linarith

text \<open>A socket that has been closed stays closed, and nothing is emitted in its name.\<close>

lemma closed_stays:
  assumes "sockets s c = Some sock" and "\<not> connected sock"
  shows "\<exists>sock'. sockets (fst (handle e sid ev s)) c = Some sock' \<and> \<not> connected sock'"
proof (cases "ev = Connection")
  case True
  with assms show ?thesis
    by (cases "sockets s sid") (auto simp: handle_Connection connection_new connection_known)
next
  case notconn: False
  show ?thesis
  proof (cases "\<exists>sk. sockets s sid = Some sk \<and> connected sk")
    case False
    then have "handle e sid ev s = (s, [])"
      using notconn handle_not_delivered [of ev s sid e] by (cases "sockets s sid") auto
    with assms show ?thesis by simp
  next
    case True
    then obtain sk where live: "sockets s sid = Some sk" "connected sk" by blast
    with assms have other: "sid \<noteq> c" by auto
    show ?thesis
    proof (cases ev)
      case Connection
      with notconn show ?thesis by simp
    next
      case (Authenticate d)
      show ?thesis
      proof (cases d)
        case None
        with Authenticate assms show ?thesis by (simp add: handle_Authenticate_None)
      next
        case (Some a)
        with Authenticate assms other handle_Authenticate_Some [OF live, of e a] show ?thesis
          by auto
      qed
    next
      case Disconnect
      with assms other handle_Disconnect [OF live, of e] show ?thesis
        by auto
    qed (use assms guarded_handlers_frame [of ev _ _ _ e sid s] in auto)
  qed
qed

lemma closed_quiet:
  assumes "sockets s c = Some sock" and "\<not> connected sock"
  shows "left_notices c (snd (handle e sid ev s)) = []"
proof (cases "sid = c \<and> ev = Disconnect")
  case True
  with assms have "handle e sid ev s = (s, [])"
    by (intro handle_not_delivered) auto
  then show ?thesis by (simp add: left_notices_def)
next
  case False
  then show ?thesis by (rule left_notices_handle)
qed

lemma closed_run_quiet:
  "sockets s c = Some sock \<Longrightarrow> \<not> connected sock \<Longrightarrow> left_notices c (snd (run tr s)) = []"
proof (induction tr arbitrary: s sock)
  case Nil
  then show ?case by (simp add: left_notices_def)
next
  case (Cons x tr)
  obtain e sid ev where x: "x = (e, sid, ev)" by (cases x) auto
  from closed_stays [OF Cons.prems, of e sid ev]
  obtain sock' where "sockets (fst (handle e sid ev s)) c = Some sock'" "\<not> connected sock'"
    by blast
  from Cons.IH [OF this] closed_quiet [OF Cons.prems, of e sid ev]
  show ?case
    unfolding x run_snd_Cons by (simp add: left_notices_append)
qed

text \<open>In every run, from every state, at most one \<open>user_left\<close> names a given connection.\<close>

lemma user_left_at_most_once_in_every_run: "length (left_notices c (snd (run tr s))) \<le> 1"
proof (induction tr arbitrary: s)
  case Nil
  then show ?case by (simp add: left_notices_def)
next
  case (Cons x tr)
  obtain e sid ev where x: "x = (e, sid, ev)" by (cases x) auto
  show ?case
  proof (cases "sid = c \<and> ev = Disconnect \<and> (\<exists>sk. sockets s c = Some sk \<and> connected sk)")
    case True
    then obtain sk where live: "sockets s c = Some sk" "connected sk" and ev: "sid = c" "ev = Disconnect"
      by blast
    from handle_Disconnect [OF live, of e]
    have "sockets (fst (handle e c Disconnect s)) c = Some (sk\<lparr>connected := False\<rparr>)"
      by simp
    then have "left_notices c (snd (run tr (fst (handle e c Disconnect s)))) = []"
      by (rule closed_run_quiet) simp
    with left_notices_handle_le [of c e c Disconnect s] show ?thesis
      unfolding x ev run_snd_Cons by (simp add: left_notices_append)
  next
    case False
    have "left_notices c (snd (handle e sid ev s)) = []"
    proof (cases "sid = c \<and> ev = Disconnect")
      case True
      with False have "sockets s c = None \<or> (\<exists>sk. sockets s c = Some sk \<and> \<not> connected sk)"
        by (cases "sockets s c") auto
      with True have "handle e sid ev s = (s, [])"
        by (intro handle_not_delivered) auto
      then show ?thesis by (simp add: left_notices_def)
    next
      case False
      then show ?thesis by (rule left_notices_handle)
    qed
    with Cons.IH [of "fst (handle e sid ev s)"] show ?thesis
      unfolding x run_snd_Cons by (simp add: left_notices_append)
  qed
qed

lemma two_in_room_redis:
  "redis (fst (run two_in_room init)) =
     [''cache:collaboration:u1:p'' \<mapsto> (CollaborationSession ''a'' 3000 True, 3603000),
      ''cache:collaboration:u2:p'' \<mapsto> (CollaborationSession ''b'' 4000 True, 3604000)]"
  by (simp add: two_in_room_def run_defs)

text \<open>
  Claim C8. When the transport closes an authenticated connection, the session record is
  deleted from the store (if the store call succeeds), the connection is taken out of
  \<open>connectedUsers\<close>, and a single \<open>user_left\<close> notification with the user id, the
  connection id and the clock reading is emitted to the members of the room other than
  the closing connection. The cleanup cannot notify twice: a second \<open>disconnect\<close> for
  that connection changes nothing and emits nothing, no later sequence of events emits
  another \<open>user_left\<close> naming it, and no run from any state holds two of them for one
  connection.
\<close>

theorem disconnect_deletes_record_and_notifies_exactly_once:
  assumes "sockets s sid = Some sock" and "connected sock" and "authenticated sock = Some (u, p)"
  shows "snd (handle e sid Disconnect s) =
           [\<lparr>addressed = Some (Some p), target = rooms s (Some p) - {sid},
             msg = user_left u sid (now e)\<rparr>]
       \<and> (store_ok e \<longrightarrow>
            redis (fst (handle e sid Disconnect s)) (''cache:collaboration:'' @ u @ '':'' @ p) = None)
       \<and> sid \<notin> set (connectedUsers (fst (handle e sid Disconnect s)))
       \<and> handle e' sid Disconnect (fst (handle e sid Disconnect s)) = (fst (handle e sid Disconnect s), [])
       \<and> left_notices sid (snd (run tr (fst (handle e sid Disconnect s)))) = []
       \<and> length (left_notices c (snd (run tr' s'))) \<le> 1"
proof -
  have closed: "authenticated (sock\<lparr>connected := False\<rparr>) = Some (u, p)"
    using assms(3) by (simp add: authenticated_def)
  have first: "snd (handle e sid Disconnect s) =
           [\<lparr>addressed = Some (Some p), target = rooms s (Some p) - {sid},
             msg = user_left u sid (now e)\<rparr>]
       \<and> (store_ok e \<longrightarrow>
            redis (fst (handle e sid Disconnect s)) (''cache:collaboration:'' @ u @ '':'' @ p) = None)
       \<and> sid \<notin> set (connectedUsers (fst (handle e sid Disconnect s)))"
    using assms(1,2) closed
    by (simp add: handle_def disconnect_def close_socket_def leaveAll_def socket_to_def map_delete_def
          removeCollaborationSession_def deleteCache_def del_def Let_def)
  from handle_Disconnect [OF assms(1,2), of e]
  have gone: "sockets (fst (handle e sid Disconnect s)) sid = Some (sock\<lparr>connected := False\<rparr>)"
    by simp
  then have again: "handle e' sid Disconnect (fst (handle e sid Disconnect s))
      = (fst (handle e sid Disconnect s), [])"
    by (intro handle_not_delivered) auto
  from gone have later: "left_notices sid (snd (run tr (fst (handle e sid Disconnect s)))) = []"
    by (rule closed_run_quiet) simp
  from first again later user_left_at_most_once_in_every_run [of c tr' s'] show ?thesis
    by blast
qed

theorem disconnect_deletes_record_and_notifies_exactly_once_witness:
  "snd (handle (env_at 5000) ''a'' Disconnect (fst (run two_in_room init))) =
     [\<lparr>addressed = Some (Some ''p''), target = {''b''}, msg = user_left ''u1'' ''a'' 5000\<rparr>]
   \<and> redis (fst (handle (env_at 5000) ''a'' Disconnect (fst (run two_in_room init))))
        ''cache:collaboration:u1:p'' = None
   \<and> ''a'' \<notin> set (connectedUsers (fst (handle (env_at 5000) ''a'' Disconnect (fst (run two_in_room init)))))
   \<and> snd (handle (env_at 6000) ''a'' Disconnect
            (fst (handle (env_at 5000) ''a'' Disconnect (fst (run two_in_room init))))) = []"
  using disconnect_deletes_record_and_notifies_exactly_once [of "fst (run two_in_room init)" "''a''"
      "\<lparr>userId = Some ''u1'', projectId = Some ''p'', connected = True\<rparr>" "''u1''" "''p''"
      "env_at 5000" "env_at 6000"]
  by (simp add: two_in_room_sockets two_in_room_rooms authenticated_def env_at_def insert_Diff_if)

end
